theory Spec2Isabelle
  imports Complex_Main "HOL-Library.Sublist" "HOL-Library.Char_ord" "HOL-Library.List_Lexorder"
begin

section \<open>Stored values, documents and the store handle\<close>

text \<open>
  The store enforces no schema: a field of a stored document holds a value of any kind.
  The kinds modelled are null, booleans, integers, floats, strings, object identifiers,
  arrays and embedded documents. Floats are only passed through and compared with zero;
  they are modelled as real numbers, and the values of a float that are no numbers are
  not modelled. A stored integer has at most 64 bits, so its
  conversion to a float never overflows. The characters of a string are the code points
  below 256.
\<close>

datatype val =
    VNull
  | VBool bool
  | VInt int
  | VNum real
  | VStr string
  | VOid nat
  | VArr "val list"
  | VDoc "(string \<times> val) list"

text \<open>
  A stored product is a dictionary. The program reads six of its keys; for each of them
  the document records \<open>None\<close> when the key is absent and \<open>Some v\<close> when it is present with
  the value \<open>v\<close>, which may be null or of any other kind.
\<close>

record document =
  d_id :: "val option"
  d_title :: "val option"
  d_description :: "val option"
  d_price :: "val option"
  d_category :: "val option"
  d_in_stock :: "val option"

text \<open>
  The store handle \<open>db\<close> is a \<open>store option\<close>: \<open>None\<close> is the handle that was never
  initialised. A store holds the \<open>product\<close> collection in insertion order and the next
  identifier it will assign. Two parts of the store lie outside the program and are
  carried as data:
  \<^item> \<open>faults\<close> is the outcome of the coming store calls, one entry per call:
    \<open>Some msg\<close> makes that call raise an error whose text is \<open>msg\<close>, \<open>None\<close> (or an
    exhausted list) lets it succeed;
  \<^item> \<open>regex_ext\<close> is the store's pattern engine on the patterns outside the fragment
    modelled below: given the pattern and the options it returns the compiled matcher,
    or the text of the compilation error.
\<close>

record store =
  product :: "document list"
  next_oid :: nat
  faults :: "string option list"
  regex_ext :: "string \<Rightarrow> string \<Rightarrow> string + (string \<Rightarrow> bool)"

datatype store_exn = StoreUnavailable | StoreOperationFailed string

text \<open>
  Modelled from the spec: the text of the exception the absent helper \<open>create_document\<close>
  raises on an unavailable handle; the spec only names the condition.
\<close>

definition unavailable_msg :: string where
  "unavailable_msg = ''store unavailable''"

text \<open>\<open>str(e)\<close> for the exceptions the store layer raises.\<close>

fun exn_str :: "store_exn \<Rightarrow> string" where
  "exn_str StoreUnavailable = unavailable_msg"
| "exn_str (StoreOperationFailed m) = m"

definition next_fault :: "store \<Rightarrow> string option \<times> store" where
  "next_fault s = (case faults s of [] \<Rightarrow> (None, s) | f # fs \<Rightarrow> (f, s\<lparr>faults := fs\<rparr>))"

text \<open>The fields a query of this program names.\<close>

definition get_field :: "string \<Rightarrow> document \<Rightarrow> val option" where
  "get_field k d =
     (if k = ''title'' then d_title d
      else if k = ''description'' then d_description d
      else if k = ''category'' then d_category d
      else None)"

section \<open>The library functions the program calls\<close>

text \<open>
  Some answers of the Python library and of the validation library are not fixed by the
  source and are carried as data:
  \<^item> \<open>float_str\<close>: \<open>float(s)\<close> for a string \<open>s\<close>; \<open>None\<close> is the \<open>ValueError\<close> raised for a
    string that does not denote a number;
  \<^item> \<open>coerce_str\<close>: what validation makes of a value that is neither null nor a string
    when the field is declared \<open>str\<close>; \<open>None\<close> is a rejection (the answer depends on the
    version of the validation library);
  \<^item> \<open>str_other\<close>: \<open>str(v)\<close> for numbers, arrays and embedded documents;
  \<^item> \<open>sort_same\<close>: \<open>list.sort\<close> on two or more values of one orderable kind other than
    strings (numbers, identifiers, arrays), which may still raise for arrays;
  \<^item> \<open>sort_msg\<close>: the text of the \<open>TypeError\<close> raised by \<open>list.sort\<close> on values that
    cannot be ordered.
\<close>

record runtime =
  float_str :: "string \<Rightarrow> real option"
  coerce_str :: "val \<Rightarrow> string option"
  str_other :: "val \<Rightarrow> string"
  sort_same :: "val list \<Rightarrow> string + val list"
  sort_msg :: "val list \<Rightarrow> string"

datatype py_exn = TypeError | ValueError | ValidationError "string list"

text \<open>\<open>d.get(k)\<close>: the value of a key, null when the key is absent.\<close>

definition dict_get :: "val option \<Rightarrow> val" where
  "dict_get x = (case x of None \<Rightarrow> VNull | Some v \<Rightarrow> v)"

text \<open>\<open>d.get(k, default)\<close>: only an absent key takes the default; a stored null stays null.\<close>

definition dict_get_default :: "val option \<Rightarrow> val \<Rightarrow> val" where
  "dict_get_default x dflt = (case x of None \<Rightarrow> dflt | Some v \<Rightarrow> v)"

text \<open>
  \<open>float(v)\<close>: numbers and booleans convert, a string is parsed, and null, identifiers,
  arrays and embedded documents raise \<open>TypeError\<close>.
\<close>

fun py_float :: "runtime \<Rightarrow> val \<Rightarrow> py_exn + real" where
  "py_float rt VNull = Inl TypeError"
| "py_float rt (VBool b) = Inr (if b then 1 else 0)"
| "py_float rt (VInt i) = Inr (of_int i)"
| "py_float rt (VNum r) = Inr r"
| "py_float rt (VStr s) = (case float_str rt s of None \<Rightarrow> Inl ValueError | Some r \<Rightarrow> Inr r)"
| "py_float rt (VOid n) = Inl TypeError"
| "py_float rt (VArr xs) = Inl TypeError"
| "py_float rt (VDoc kvs) = Inl TypeError"

text \<open>\<open>bool(v)\<close>: the truth value of a value; it never raises.\<close>

fun py_bool :: "val \<Rightarrow> bool" where
  "py_bool VNull = False"
| "py_bool (VBool b) = b"
| "py_bool (VInt i) = (i \<noteq> 0)"
| "py_bool (VNum r) = (r \<noteq> 0)"
| "py_bool (VStr s) = (s \<noteq> [])"
| "py_bool (VOid n) = True"
| "py_bool (VArr xs) = (xs \<noteq> [])"
| "py_bool (VDoc kvs) = (kvs \<noteq> [])"

text \<open>An identifier prints as 24 lower-case hexadecimal digits.\<close>

definition hex_digit :: "nat \<Rightarrow> char" where
  "hex_digit n = ''0123456789abcdef'' ! (n mod 16)"

fun hex_nat :: "nat \<Rightarrow> nat \<Rightarrow> string" where
  "hex_nat 0 n = []"
| "hex_nat (Suc k) n = hex_nat k (n div 16) @ [hex_digit n]"

definition str_oid :: "nat \<Rightarrow> string" where
  "str_oid n = hex_nat 24 n"

text \<open>\<open>str(v)\<close>; it never raises.\<close>

fun py_str :: "runtime \<Rightarrow> val \<Rightarrow> string" where
  "py_str rt VNull = ''None''"
| "py_str rt (VBool b) = (if b then ''True'' else ''False'')"
| "py_str rt (VStr s) = s"
| "py_str rt (VOid n) = str_oid n"
| "py_str rt (VInt i) = str_other rt (VInt i)"
| "py_str rt (VNum r) = str_other rt (VNum r)"
| "py_str rt (VArr xs) = str_other rt (VArr xs)"
| "py_str rt (VDoc kvs) = str_other rt (VDoc kvs)"

text \<open>
  \<open>list.sort\<close> on a list of stored values. Strings are ordered by code points. Null and
  embedded documents support no comparison, and values of two different kinds do not
  compare with each other (booleans, integers and floats are one kind), so a list of two
  or more values that has such a member raises \<open>TypeError\<close>. A list of at most one value
  is sorted without any comparison.
\<close>

datatype kind = KNull | KNum | KStr | KOid | KArr | KDoc

fun kind_of :: "val \<Rightarrow> kind" where
  "kind_of VNull = KNull"
| "kind_of (VBool b) = KNum"
| "kind_of (VInt i) = KNum"
| "kind_of (VNum r) = KNum"
| "kind_of (VStr s) = KStr"
| "kind_of (VOid n) = KOid"
| "kind_of (VArr xs) = KArr"
| "kind_of (VDoc kvs) = KDoc"

definition is_str :: "val \<Rightarrow> bool" where
  "is_str v = (kind_of v = KStr)"

fun strings :: "val list \<Rightarrow> string list" where
  "strings [] = []"
| "strings (VStr t # vs) = t # strings vs"
| "strings (v # vs) = strings vs"

definition unorderable :: "val list \<Rightarrow> bool" where
  "unorderable xs =
     (list_ex (\<lambda>x. kind_of x = KNull \<or> kind_of x = KDoc) xs \<or>
      list_ex (\<lambda>x. kind_of x \<noteq> kind_of (hd xs)) xs)"

definition py_sort :: "runtime \<Rightarrow> val list \<Rightarrow> string + val list" where
  "py_sort rt xs =
     (if list_all is_str xs then Inr (map VStr (sort (strings xs)))
      else if length xs \<le> 1 then Inr xs
      else if unorderable xs then Inl (sort_msg rt xs)
      else sort_same rt xs)"

section \<open>The store's pattern matching\<close>

text \<open>
  The \<open>$regex\<close> operator searches a string for a match of a pattern. The fragment
  modelled here has the ASCII characters that are no operators, which match themselves
  (up to the case of ASCII letters under the option \<open>i\<close>), and the wildcard \<open>.\<close>, which
  matches any character but a line feed. Among the code points below 256 no character
  other than an ASCII letter folds to an ASCII letter. A pattern with any other operator
  character or with a character outside ASCII is handed to \<open>regex_ext\<close>.
\<close>

datatype atom = Lit char | Dot

definition metachars :: "char list" where
  "metachars = [CHR 0x5C, CHR ''^'', CHR ''$'', CHR ''*'', CHR ''+'', CHR ''?'', CHR ''('',
                CHR '')'', CHR ''['', CHR '']'', CHR ''{'', CHR ''}'', CHR ''|'']"

definition non_ascii :: "char \<Rightarrow> bool" where
  "non_ascii c = digit7 c"

fun parse_atoms :: "string \<Rightarrow> atom list option" where
  "parse_atoms [] = Some []"
| "parse_atoms (c # cs) =
     (if c \<in> set metachars \<or> non_ascii c then None
      else map_option ((#) (if c = CHR ''.'' then Dot else Lit c)) (parse_atoms cs))"

definition ascii_fold :: "char \<Rightarrow> char" where
  "ascii_fold c =
     (case map_of (zip ''ABCDEFGHIJKLMNOPQRSTUVWXYZ'' ''abcdefghijklmnopqrstuvwxyz'') c of
        Some l \<Rightarrow> l
      | None \<Rightarrow> c)"

fun atom_match :: "bool \<Rightarrow> atom \<Rightarrow> char \<Rightarrow> bool" where
  "atom_match ci (Lit c) x = (if ci then ascii_fold c = ascii_fold x else c = x)"
| "atom_match ci Dot x = (x \<noteq> CHR 0x0A)"

fun match_here :: "bool \<Rightarrow> atom list \<Rightarrow> string \<Rightarrow> bool" where
  "match_here ci [] xs = True"
| "match_here ci (a # as) [] = False"
| "match_here ci (a # as) (x # xs) = (atom_match ci a x \<and> match_here ci as xs)"

fun search :: "bool \<Rightarrow> atom list \<Rightarrow> string \<Rightarrow> bool" where
  "search ci as [] = match_here ci as []"
| "search ci as (x # xs) = (match_here ci as (x # xs) \<or> search ci as xs)"

definition regex_compile :: "store \<Rightarrow> string \<Rightarrow> string \<Rightarrow> string + (string \<Rightarrow> bool)" where
  "regex_compile s p opts =
     (case parse_atoms p of
        Some as \<Rightarrow> Inr (search (CHR ''i'' \<in> set opts) as)
      | None \<Rightarrow> regex_ext s p opts)"

section \<open>Filter expressions\<close>

text \<open>
  The filter dictionary \<open>list_products\<close> builds has two kinds of entries:
  \<open>{field: value}\<close> and \<open>{field: {"$regex": p, "$options": o}}\<close> conditions on a field,
  and \<open>{"$or": [...]}\<close> over single-field conditions. The entries of a dictionary are
  conjoined. A condition on a field holds of a string value that satisfies it, and of an
  array value one of whose members does; it holds of no other value and not of an absent
  field.
\<close>

datatype cond = Equals string | Regex string string

datatype entry = Field string cond | Or "(string \<times> cond) list"

type_synonym filter_expr = "entry list"

fun cond_error :: "store \<Rightarrow> cond \<Rightarrow> string option" where
  "cond_error s (Equals v) = None"
| "cond_error s (Regex p opts) = (case regex_compile s p opts of Inl m \<Rightarrow> Some m | Inr _ \<Rightarrow> None)"

fun first_some :: "'a option list \<Rightarrow> 'a option" where
  "first_some [] = None"
| "first_some (None # xs) = first_some xs"
| "first_some (Some m # xs) = Some m"

fun entry_error :: "store \<Rightarrow> entry \<Rightarrow> string option" where
  "entry_error s (Field k c) = cond_error s c"
| "entry_error s (Or alts) = first_some (map (\<lambda>(k, c). cond_error s c) alts)"

definition filter_error :: "store \<Rightarrow> filter_expr \<Rightarrow> string option" where
  "filter_error s flt = first_some (map (entry_error s) flt)"

text \<open>The strings a condition is tested on: the value itself, or the members of an array.\<close>

fun candidates :: "val option \<Rightarrow> string list" where
  "candidates (Some (VStr t)) = [t]"
| "candidates (Some (VArr xs)) = strings xs"
| "candidates x = []"

fun cond_matches :: "store \<Rightarrow> cond \<Rightarrow> val option \<Rightarrow> bool" where
  "cond_matches s (Equals v) x = list_ex (\<lambda>t. t = v) (candidates x)"
| "cond_matches s (Regex p opts) x =
     (case regex_compile s p opts of
        Inl _ \<Rightarrow> False
      | Inr m \<Rightarrow> list_ex m (candidates x))"

fun entry_matches :: "store \<Rightarrow> entry \<Rightarrow> document \<Rightarrow> bool" where
  "entry_matches s (Field k c) d = cond_matches s c (get_field k d)"
| "entry_matches s (Or alts) d = list_ex (\<lambda>(k, c). cond_matches s c (get_field k d)) alts"

definition filter_matches :: "store \<Rightarrow> filter_expr \<Rightarrow> document \<Rightarrow> bool" where
  "filter_matches s flt d = list_all (\<lambda>e. entry_matches s e d) flt"

section \<open>Store calls\<close>

text \<open>
  The four collection methods the program calls. Each consumes one entry of the fault
  schedule and raises when that entry holds an error text. \<open>find\<close> rejects a filter with
  a pattern the engine cannot compile before it looks at any document, and returns the
  matching documents in stored order.
\<close>

definition find :: "store \<Rightarrow> filter_expr \<Rightarrow> (store_exn + document list) \<times> store" where
  "find s flt =
     (case next_fault s of
        (Some m, s') \<Rightarrow> (Inl (StoreOperationFailed m), s')
      | (None, s') \<Rightarrow>
          (case filter_error s' flt of
             Some m \<Rightarrow> (Inl (StoreOperationFailed m), s')
           | None \<Rightarrow> (Inr (filter (filter_matches s' flt) (product s')), s')))"

text \<open>
  \<open>distinct\<close> collects the values of a field over the collection: a document without
  the field contributes nothing, an array contributes its members, any other value
  (null included) contributes itself. Values that the store compares equal are returned
  once; the store compares numbers by their numeric value, whatever their type. The
  store does not fix the order of the result; the model takes the order of first
  occurrence, and \<open>list_categories\<close> sorts the result.
\<close>

fun field_values :: "string \<Rightarrow> document list \<Rightarrow> val list" where
  "field_values k [] = []"
| "field_values k (d # ds) =
     (case get_field k d of
        None \<Rightarrow> []
      | Some (VArr xs) \<Rightarrow> xs
      | Some v \<Rightarrow> [v]) @ field_values k ds"

fun bson_key :: "val \<Rightarrow> val" where
  "bson_key (VInt i) = VNum (of_int i)"
| "bson_key (VArr xs) = VArr (map bson_key xs)"
| "bson_key (VDoc kvs) = VDoc (map (map_prod id bson_key) kvs)"
| "bson_key v = v"

fun dedupe :: "val list \<Rightarrow> val list" where
  "dedupe [] = []"
| "dedupe (x # xs) = x # dedupe (filter (\<lambda>y. bson_key y \<noteq> bson_key x) xs)"

definition distinct_values :: "store \<Rightarrow> string \<Rightarrow> (store_exn + val list) \<times> store" where
  "distinct_values s k =
     (case next_fault s of
        (Some m, s') \<Rightarrow> (Inl (StoreOperationFailed m), s')
      | (None, s') \<Rightarrow> (Inr (dedupe (field_values k (product s'))), s'))"

definition count_documents :: "store \<Rightarrow> (store_exn + nat) \<times> store" where
  "count_documents s =
     (case next_fault s of
        (Some m, s') \<Rightarrow> (Inl (StoreOperationFailed m), s')
      | (None, s') \<Rightarrow> (Inr (length (product s')), s'))"

text \<open>
  The documents this program inserts carry no identifier; the store assigns the next one
  and appends the document to the collection.
\<close>

definition insert_one :: "store \<Rightarrow> document \<Rightarrow> (store_exn + nat) \<times> store" where
  "insert_one s d =
     (case next_fault s of
        (Some m, s') \<Rightarrow> (Inl (StoreOperationFailed m), s')
      | (None, s') \<Rightarrow>
          (Inr (next_oid s'),
           s'\<lparr>product := product s' @ [d\<lparr>d_id := Some (VOid (next_oid s'))\<rparr>],
              next_oid := Suc (next_oid s')\<rparr>))"

text \<open>
  Modelled from the spec: the helpers \<open>get_documents\<close> and \<open>create_document\<close> of the
  absent module \<open>database\<close>. A read on an unavailable handle yields the empty sequence;
  a write on an unavailable handle raises; otherwise the helper calls the store and
  \<open>create_document\<close> returns the assigned identifier as a string.
\<close>

definition get_documents :: "store option \<Rightarrow> filter_expr \<Rightarrow> (store_exn + document list) \<times> store option" where
  "get_documents db flt =
     (case db of
        None \<Rightarrow> (Inr [], None)
      | Some s \<Rightarrow> (case find s flt of (r, s') \<Rightarrow> (r, Some s')))"

definition create_document :: "store option \<Rightarrow> document \<Rightarrow> (store_exn + string) \<times> store option" where
  "create_document db d =
     (case db of
        None \<Rightarrow> (Inl StoreUnavailable, None)
      | Some s \<Rightarrow>
          (case insert_one s d of
             (Inl e, s') \<Rightarrow> (Inl e, Some s')
           | (Inr n, s') \<Rightarrow> (Inr (str_oid n), Some s')))"

section \<open>The public product record\<close>

text \<open>
  The class \<open>ProductOut\<close>: \<open>id\<close>, \<open>title\<close> and \<open>category\<close> are required strings,
  \<open>description\<close> is an optional string whose \<open>None\<close> is the null value, \<open>price\<close> is a
  float and \<open>in_stock\<close> a boolean.
\<close>

record ProductOut =
  id' :: string
  title :: string
  description :: "string option"
  price :: real
  category :: string
  in_stock :: bool

datatype json = JNull | JBool bool | JInt int | JNum real | JStr string

text \<open>
  The fields of a record as the class declares them: every declared field is present,
  and an absent description is the null value.
\<close>

definition model_fields :: "ProductOut \<Rightarrow> (string \<times> json) list" where
  "model_fields p =
     [(''id'', JStr (id' p)),
      (''title'', JStr (title p)),
      (''description'', (case description p of None \<Rightarrow> JNull | Some t \<Rightarrow> JStr t)),
      (''price'', JNum (price p)),
      (''category'', JStr (category p)),
      (''in_stock'', JBool (in_stock p))]"

datatype failure =
    HTTPException nat string
  | UncaughtStore store_exn
  | Uncaught py_exn

text \<open>
  Constructing a \<open>ProductOut\<close> validates the arguments against the declared types. For a
  field declared \<open>str\<close> a string is accepted, null is rejected, and any other value is
  accepted or rejected as \<open>coerce_str\<close> says; a field declared \<open>Optional[str]\<close> accepts
  null as well. The arguments for \<open>id\<close>, \<open>price\<close> and \<open>in_stock\<close> are results of \<open>str\<close>,
  \<open>float\<close> and \<open>bool\<close> and are always accepted. The validation error lists the rejected
  fields in declaration order.
\<close>

definition str_arg :: "runtime \<Rightarrow> val \<Rightarrow> string option" where
  "str_arg rt v =
     (case v of
        VStr s \<Rightarrow> Some s
      | VNull \<Rightarrow> None
      | _ \<Rightarrow> coerce_str rt v)"

definition opt_str_arg :: "runtime \<Rightarrow> val \<Rightarrow> string option option" where
  "opt_str_arg rt v = (if v = VNull then Some None else map_option Some (str_arg rt v))"

definition ProductOut_init ::
  "runtime \<Rightarrow> string \<Rightarrow> val \<Rightarrow> val \<Rightarrow> real \<Rightarrow> val \<Rightarrow> bool \<Rightarrow> string list + ProductOut" where
  "ProductOut_init rt i t dsc pr c st =
     (case (str_arg rt t, opt_str_arg rt dsc, str_arg rt c) of
        (Some t', Some dsc', Some c') \<Rightarrow>
          Inr \<lparr>id' = i, title = t', description = dsc', price = pr, category = c', in_stock = st\<rparr>
      | _ \<Rightarrow>
          Inl ((if str_arg rt t = None then [''title''] else []) @
               (if opt_str_arg rt dsc = None then [''description''] else []) @
               (if str_arg rt c = None then [''category''] else [])))"

section \<open>Listing products\<close>

text \<open>
  The filter of \<open>list_products\<close>: a parameter that is \<open>None\<close> or the empty string is
  falsy and adds no entry.
\<close>

definition filter_dict :: "string option \<Rightarrow> string option \<Rightarrow> filter_expr" where
  "filter_dict cat q =
     (case cat of
        None \<Rightarrow> []
      | Some c \<Rightarrow> if c \<noteq> [] then [Field ''category'' (Equals c)] else [])
     @
     (case q of
        None \<Rightarrow> []
      | Some p \<Rightarrow>
          if p \<noteq> []
          then [Or [(''title'', Regex p ''i''), (''description'', Regex p ''i'')]]
          else [])"

text \<open>
  The body of the loop: one stored document becomes one public record. The arguments
  are evaluated before the record is constructed, and of them only
  \<open>float(d.get("price", 0))\<close> can raise; its exception leaves the loop before any
  validation takes place.
\<close>

definition price_arg :: "runtime \<Rightarrow> document \<Rightarrow> py_exn + real" where
  "price_arg rt d = py_float rt (dict_get_default (d_price d) (VInt 0))"

definition product_out :: "runtime \<Rightarrow> document \<Rightarrow> py_exn + ProductOut" where
  "product_out rt d =
     (case price_arg rt d of
        Inl e \<Rightarrow> Inl e
      | Inr pr \<Rightarrow>
          (case ProductOut_init rt
                  (py_str rt (dict_get (d_id d)))
                  (dict_get (d_title d))
                  (dict_get (d_description d))
                  pr
                  (dict_get (d_category d))
                  (py_bool (dict_get_default (d_in_stock d) (VBool True))) of
             Inl fs \<Rightarrow> Inl (ValidationError fs)
           | Inr p \<Rightarrow> Inr p))"

fun out_loop :: "runtime \<Rightarrow> document list \<Rightarrow> ProductOut list \<Rightarrow> py_exn + ProductOut list" where
  "out_loop rt [] out = Inr out"
| "out_loop rt (d # ds) out =
     (case product_out rt d of
        Inl e \<Rightarrow> Inl e
      | Inr p \<Rightarrow> out_loop rt ds (out @ [p]))"

text \<open>\<open>list_products\<close> has no handler: an exception leaves the function as it was raised.\<close>

definition list_products ::
  "runtime \<Rightarrow> store option \<Rightarrow> string option \<Rightarrow> string option \<Rightarrow>
   (failure + ProductOut list) \<times> store option" where
  "list_products rt db cat q =
     (case get_documents db (filter_dict cat q) of
        (Inl e, db') \<Rightarrow> (Inl (UncaughtStore e), db')
      | (Inr docs, db') \<Rightarrow>
          (case out_loop rt docs [] of
             Inl e \<Rightarrow> (Inl (Uncaught e), db')
           | Inr out \<Rightarrow> (Inr out, db')))"

section \<open>Creating a product\<close>

text \<open>
  Modelled from the spec: the input class \<open>Product\<close> of the absent module \<open>schemas\<close>
  (required title, price and category; optional description; \<open>in_stock\<close> defaulting to
  true), and the dictionary \<open>create_document\<close> stores for it.
\<close>

record Product =
  p_title :: string
  p_description :: "string option"
  p_price :: real
  p_category :: string
  p_in_stock :: bool

definition product_doc :: "Product \<Rightarrow> document" where
  "product_doc p =
     \<lparr>d_id = None, d_title = Some (VStr (p_title p)),
      d_description = map_option VStr (p_description p),
      d_price = Some (VNum (p_price p)), d_category = Some (VStr (p_category p)),
      d_in_stock = Some (VBool (p_in_stock p))\<rparr>"

definition create_product :: "store option \<Rightarrow> Product \<Rightarrow> (failure + (string \<times> json) list) \<times> store option" where
  "create_product db p =
     (case create_document db (product_doc p) of
        (Inr inserted_id, db') \<Rightarrow> (Inr [(''id'', JStr inserted_id)], db')
      | (Inl e, db') \<Rightarrow> (Inl (HTTPException 500 (exn_str e)), db'))"

section \<open>Listing categories\<close>

text \<open>
  The handler of \<open>list_categories\<close> catches every exception of its body, those of the
  store call and the one \<open>categories.sort()\<close> raises, and answers with status 500 and
  the text of the exception.
\<close>

definition list_categories :: "runtime \<Rightarrow> store option \<Rightarrow> (failure + val list) \<times> store option" where
  "list_categories rt db =
     (case (case db of
              None \<Rightarrow> (Inr [], None)
            | Some s \<Rightarrow> (case distinct_values s ''category'' of (r, s') \<Rightarrow> (r, Some s'))) of
        (Inr categories, db') \<Rightarrow>
          (case py_sort rt categories of
             Inr sorted_categories \<Rightarrow> (Inr sorted_categories, db')
           | Inl m \<Rightarrow> (Inl (HTTPException 500 m), db'))
      | (Inl e, db') \<Rightarrow> (Inl (HTTPException 500 (exn_str e)), db'))"

section \<open>Seeding\<close>

definition sample :: "string \<Rightarrow> string \<Rightarrow> real \<Rightarrow> string \<Rightarrow> document" where
  "sample t dsc pr c =
     \<lparr>d_id = None, d_title = Some (VStr t), d_description = Some (VStr dsc),
      d_price = Some (VNum pr), d_category = Some (VStr c), d_in_stock = Some (VBool True)\<rparr>"

definition samples :: "document list" where
  "samples =
     [sample ''Classic White T-Shirt'' ''Soft cotton tee for everyday wear.'' (1499 / 100) ''Clothes'',
      sample ''Organic Granola'' ''Crunchy, honey-sweetened breakfast granola.'' (749 / 100) ''Food'',
      sample ''Bluetooth Headphones'' ''Noise-isolating on-ear headphones with 20h battery.''
        (5999 / 100) ''Electronics'',
      sample ''Stainless Water Bottle'' ''Keeps drinks cold for 24h and hot for 12h.'' (1999 / 100) ''Home'',
      sample ''Gourmet Dark Chocolate'' ''70% cacao premium chocolate bar.'' (399 / 100) ''Food'']"

fun create_all :: "store option \<Rightarrow> document list \<Rightarrow> (store_exn + unit) \<times> store option" where
  "create_all db [] = (Inr (), db)"
| "create_all db (d # ds) =
     (case create_document db d of
        (Inl e, db') \<Rightarrow> (Inl e, db')
      | (Inr _, db') \<Rightarrow> create_all db' ds)"

definition seed_products :: "store option \<Rightarrow> (failure + (string \<times> json) list) \<times> store option" where
  "seed_products db =
     (case (case db of
              None \<Rightarrow> (Inr 0, None)
            | Some s \<Rightarrow> (case count_documents s of (r, s') \<Rightarrow> (r, Some s'))) of
        (Inl e, db') \<Rightarrow> (Inl (HTTPException 500 (exn_str e)), db')
      | (Inr count, db') \<Rightarrow>
          if count > 0
          then (Inr [(''status'', JStr ''ok''), (''seeded'', JBool False),
                     (''existing'', JInt (int count))], db')
          else
            (case create_all db' samples of
               (Inl e, db'') \<Rightarrow> (Inl (HTTPException 500 (exn_str e)), db'')
             | (Inr _, db'') \<Rightarrow>
                 (Inr [(''status'', JStr ''ok''), (''seeded'', JBool True),
                       (''count'', JInt (int (length samples)))], db'')))"

section \<open>Notions used to state the properties\<close>

text \<open>The next store call raises no error.\<close>

definition next_ok :: "store \<Rightarrow> bool" where
  "next_ok s = (case faults s of [] \<Rightarrow> True | f # fs \<Rightarrow> f = None)"

text \<open>A stored document without the identifier the store gave it.\<close>

definition strip_id :: "document \<Rightarrow> document" where
  "strip_id d = d\<lparr>d_id := None\<rparr>"

text \<open>
  Case-insensitive containment of a literal substring, and the filter the specification
  describes: equality on the category when one is given, containment of \<open>q\<close> in the title
  or the description when \<open>q\<close> is given.
\<close>

definition ci_contains :: "string \<Rightarrow> string \<Rightarrow> bool" where
  "ci_contains p t = sublist (map ascii_fold p) (map ascii_fold t)"

definition spec_matches :: "string option \<Rightarrow> string option \<Rightarrow> document \<Rightarrow> bool" where
  "spec_matches cat q d =
     ((case cat of None \<Rightarrow> True | Some c \<Rightarrow> d_category d = Some (VStr c)) \<and>
      (case q of
         None \<Rightarrow> True
       | Some p \<Rightarrow>
           (case d_title d of Some (VStr t) \<Rightarrow> ci_contains p t | _ \<Rightarrow> False) \<or>
           (case d_description d of Some (VStr t) \<Rightarrow> ci_contains p t | _ \<Rightarrow> False)))"

text \<open>A search string of ASCII characters without any pattern operator.\<close>

definition literal :: "string \<Rightarrow> bool" where
  "literal p = (\<forall>c \<in> set p. c \<notin> set metachars \<and> c \<noteq> CHR ''.'' \<and> \<not> non_ascii c)"

text \<open>
  A field that is absent or holds a string; a field that is absent, null or holds a
  string; a field that is absent or holds a number (an integer, a float or, as in
  Python, a boolean).
\<close>

definition str_or_absent :: "val option \<Rightarrow> bool" where
  "str_or_absent x = (case x of None \<Rightarrow> True | Some v \<Rightarrow> is_str v)"

definition str_or_null :: "val option \<Rightarrow> bool" where
  "str_or_null x = (case x of None \<Rightarrow> True | Some v \<Rightarrow> v = VNull \<or> is_str v)"

definition num_or_absent :: "val option \<Rightarrow> bool" where
  "num_or_absent x = (case x of None \<Rightarrow> True | Some v \<Rightarrow> kind_of v = KNum)"

definition string_categories :: "store \<Rightarrow> bool" where
  "string_categories s = list_all (\<lambda>d. str_or_absent (d_category d)) (product s)"

subsection \<open>Concrete stores, runtimes and documents\<close>

text \<open>
  A store that holds the given documents, has no error scheduled, and whose engine
  rejects every pattern outside the modelled fragment.
\<close>

definition plain_store :: "document list \<Rightarrow> store" where
  "plain_store ds =
     \<lparr>product = ds, next_oid = length ds, faults = [],
      regex_ext = (\<lambda>p opts. Inl ''unsupported pattern'')\<rparr>"

definition seeded_store :: store where
  "seeded_store =
     plain_store (map (\<lambda>(i, d). d\<lparr>d_id := Some (VOid i)\<rparr>) (zip [0, 1, 2, 3, 4] samples))"

definition long_msg :: string where
  "long_msg = ''connection to the store was refused by the remote host at port 27017''"

definition faulty_store :: store where
  "faulty_store =
     \<lparr>product = [], next_oid = 0, faults = [Some long_msg],
      regex_ext = (\<lambda>p opts. Inl ''unsupported pattern'')\<rparr>"

text \<open>
  An empty store whose count and first two inserts succeed and whose third insert raises.
\<close>

definition leaky_store :: store where
  "leaky_store =
     \<lparr>product = [], next_oid = 0, faults = [None, None, None, Some ''disk full''],
      regex_ext = (\<lambda>p opts. Inl ''unsupported pattern'')\<rparr>"

text \<open>
  The runtime of the examples: a validation that coerces nothing to a string. None of
  its other answers is consulted by the examples but \<open>sort_msg\<close>, whose text is left as
  the runtime gives it.
\<close>

definition strict_runtime :: runtime where
  "strict_runtime =
     \<lparr>float_str = (\<lambda>s. None), coerce_str = (\<lambda>v. None), str_other = (\<lambda>v. []),
      sort_same = Inr, sort_msg = (\<lambda>xs. ''values cannot be ordered'')\<rparr>"

definition titled :: "val \<Rightarrow> val \<Rightarrow> document" where
  "titled t c =
     \<lparr>d_id = Some (VOid 0), d_title = Some t, d_description = None, d_price = None,
      d_category = Some c, d_in_stock = None\<rparr>"

definition untitled :: document where
  "untitled =
     \<lparr>d_id = Some (VOid 7), d_title = None, d_description = Some (VStr ''no name''),
      d_price = Some (VNum 2), d_category = Some (VStr ''Food''), d_in_stock = Some (VBool True)\<rparr>"

definition untitled_null_price :: document where
  "untitled_null_price = untitled\<lparr>d_price := Some VNull\<rparr>"

definition null_price :: document where
  "null_price =
     \<lparr>d_id = Some (VOid 7), d_title = Some (VStr ''X''), d_description = None,
      d_price = Some VNull, d_category = Some (VStr ''Y''), d_in_stock = None\<rparr>"

definition bare :: document where
  "bare =
     \<lparr>d_id = Some (VOid 7), d_title = Some (VStr ''X''), d_description = None, d_price = None,
      d_category = Some (VStr ''Y''), d_in_stock = None\<rparr>"

definition only_category :: document where
  "only_category =
     \<lparr>d_id = Some (VOid 7), d_title = None, d_description = None, d_price = None,
      d_category = Some (VStr ''Y''), d_in_stock = None\<rparr>"

definition bare_out :: ProductOut where
  "bare_out =
     \<lparr>id' = ''000000000000000000000007'', title = ''X'', description = None, price = 0,
      category = ''Y'', in_stock = True\<rparr>"

text \<open>
  A store with two products, one whose category is null and one whose category is the
  string \<open>a\<close>.
\<close>

definition null_category_store :: store where
  "null_category_store =
     plain_store [titled (VStr ''P'') VNull, (titled (VStr ''Q'') (VStr ''a''))\<lparr>d_id := Some (VOid 1)\<rparr>]"

section \<open>Basic facts\<close>

lemma next_fault_ok: "next_ok s \<Longrightarrow> next_fault s = (None, s\<lparr>faults := tl (faults s)\<rparr>)"
  by (cases "faults s") (simp_all add: next_ok_def next_fault_def)

lemma next_fault_quiet: "faults s = [] \<Longrightarrow> next_fault s = (None, s)"
  by (simp add: next_fault_def)

lemma str_oid_4: "str_oid 4 = ''000000000000000000000004''"
  by code_simp

lemma str_oid_7: "str_oid 7 = ''000000000000000000000007''"
  by code_simp

lemma length_samples: "length samples = 5"
  by (simp add: samples_def)

lemma strip_samples: "map strip_id samples = samples"
  by (simp add: samples_def sample_def strip_id_def)

section \<open>The filter of the list operation\<close>

lemma parse_atoms_literal: "literal p \<Longrightarrow> parse_atoms p = Some (map Lit p)"
  by (induction p) (simp_all add: literal_def)

lemma match_here_literal:
  "match_here True (map Lit p) t = prefix (map ascii_fold p) (map ascii_fold t)"
proof (induction p arbitrary: t)
  case Nil
  show ?case by simp
next
  case (Cons c p)
  show ?case by (cases t) (simp_all add: Cons.IH)
qed

lemma search_literal:
  "search True (map Lit p) t = sublist (map ascii_fold p) (map ascii_fold t)"
proof (induction t)
  case Nil
  show ?case by (cases p) simp_all
next
  case (Cons x t)
  have "search True (map Lit p) (x # t) =
          (prefix (map ascii_fold p) (map ascii_fold (x # t)) \<or> search True (map Lit p) t)"
    using match_here_literal [of p "x # t"] by simp
  then show ?case
    by (simp add: Cons.IH sublist_Cons_right)
qed

lemma regex_compile_literal:
  "literal p \<Longrightarrow> regex_compile s p ''i'' = Inr (ci_contains p)"
  by (simp add: regex_compile_def parse_atoms_literal ci_contains_def [abs_def]
      search_literal [abs_def])

lemma set_strings: "set (strings xs) = {t. VStr t \<in> set xs}"
  by (induction xs rule: strings.induct) auto

lemma candidates_iff:
  "t \<in> set (candidates x) \<longleftrightarrow>
     x = Some (VStr t) \<or> (\<exists>xs. x = Some (VArr xs) \<and> VStr t \<in> set xs)"
  by (cases x rule: candidates.cases) (auto simp: set_strings)

text \<open>
  C1 (as amended). The filter \<open>list_products\<close> builds matches exactly the documents whose
  category is the given category or an array that contains it, when a category is given
  and is not the empty string, and whose title or description is, or is an array that
  contains, a string in which the store's engine finds a match of \<open>q\<close> read as a
  case-insensitive pattern, when \<open>q\<close> is given and is not the empty string; both
  conditions are conjoined, and a parameter that is omitted or empty imposes no
  constraint. When \<open>q\<close> consists of ASCII characters none of which is a pattern operator,
  the match is case-insensitive containment of \<open>q\<close> as a literal substring.
\<close>

theorem filter_dict_matches:
  "(filter_matches s (filter_dict cat q) d \<longleftrightarrow>
      (\<forall>c. cat = Some c \<and> c \<noteq> [] \<longrightarrow>
         d_category d = Some (VStr c) \<or>
         (\<exists>xs. d_category d = Some (VArr xs) \<and> VStr c \<in> set xs)) \<and>
      (\<forall>p. q = Some p \<and> p \<noteq> [] \<longrightarrow>
         (\<exists>m t. regex_compile s p ''i'' = Inr m \<and> m t \<and>
            (d_title d = Some (VStr t) \<or>
             (\<exists>xs. d_title d = Some (VArr xs) \<and> VStr t \<in> set xs) \<or>
             d_description d = Some (VStr t) \<or>
             (\<exists>xs. d_description d = Some (VArr xs) \<and> VStr t \<in> set xs))))) \<and>
   (literal p \<longrightarrow> regex_compile s p ''i'' = Inr (ci_contains p))"
proof
  have cat: "filter_matches s (filter_dict (Some c) None) d \<longleftrightarrow>
      c = [] \<or> c \<in> set (candidates (d_category d))" for c
    by (auto simp: filter_matches_def filter_dict_def get_field_def list_ex_iff)
  have qry: "filter_matches s (filter_dict None (Some p)) d \<longleftrightarrow>
      p = [] \<or> (\<exists>m t. regex_compile s p ''i'' = Inr m \<and> m t \<and>
         (t \<in> set (candidates (d_title d)) \<or> t \<in> set (candidates (d_description d))))" for p
    by (auto simp: filter_matches_def filter_dict_def get_field_def list_ex_iff
        split: sum.splits)
  have both: "filter_matches s (filter_dict cat q) d \<longleftrightarrow>
      filter_matches s (filter_dict cat None) d \<and> filter_matches s (filter_dict None q) d"
    by (simp add: filter_matches_def filter_dict_def)
  have none: "filter_matches s (filter_dict None None) d"
    by (simp add: filter_matches_def filter_dict_def)
  show "filter_matches s (filter_dict cat q) d \<longleftrightarrow>
      (\<forall>c. cat = Some c \<and> c \<noteq> [] \<longrightarrow>
         d_category d = Some (VStr c) \<or>
         (\<exists>xs. d_category d = Some (VArr xs) \<and> VStr c \<in> set xs)) \<and>
      (\<forall>p. q = Some p \<and> p \<noteq> [] \<longrightarrow>
         (\<exists>m t. regex_compile s p ''i'' = Inr m \<and> m t \<and>
            (d_title d = Some (VStr t) \<or>
             (\<exists>xs. d_title d = Some (VArr xs) \<and> VStr t \<in> set xs) \<or>
             d_description d = Some (VStr t) \<or>
             (\<exists>xs. d_description d = Some (VArr xs) \<and> VStr t \<in> set xs))))"
    by (subst both, cases cat; cases q) (auto simp: none cat qry candidates_iff)
  show "literal p \<longrightarrow> regex_compile s p ''i'' = Inr (ci_contains p)"
    by (simp add: regex_compile_literal)
qed

text \<open>
  The amended statement at a concrete input: category \<open>Food\<close> and the literal search
  string \<open>ABC\<close> against a document titled \<open>xabcx\<close>.
\<close>

theorem filter_dict_matches_witness:
  "filter_matches (plain_store []) (filter_dict (Some ''Food'') (Some ''ABC''))
     (titled (VStr ''xabcx'') (VStr ''Food'')) \<and>
   regex_compile (plain_store []) ''ABC'' ''i'' = Inr (ci_contains ''ABC'') \<and>
   ci_contains ''ABC'' ''xabcx''"
proof -
  have l: "literal ''ABC''"
    by (simp add: literal_def metachars_def non_ascii_def)
  have c: "ci_contains ''ABC'' ''xabcx''"
    by (simp add: ci_contains_def ascii_fold_def sublist_Cons_right)
  from filter_dict_matches [of "plain_store []" "Some ''Food''" "Some ''ABC''"
      "titled (VStr ''xabcx'') (VStr ''Food'')" "''ABC''"] l
  have r: "regex_compile (plain_store []) ''ABC'' ''i'' = Inr (ci_contains ''ABC'')"
    by simp
  have "d_category (titled (VStr ''xabcx'') (VStr ''Food'')) = Some (VStr ''Food'')"
    and "d_title (titled (VStr ''xabcx'') (VStr ''Food'')) = Some (VStr ''xabcx'')"
    by (simp_all add: titled_def)
  with filter_dict_matches [of "plain_store []" "Some ''Food''" "Some ''ABC''"
      "titled (VStr ''xabcx'') (VStr ''Food'')" "''ABC''"] r c
  have "filter_matches (plain_store []) (filter_dict (Some ''Food'') (Some ''ABC''))
     (titled (VStr ''xabcx'') (VStr ''Food''))"
    by auto
  with r c show ?thesis by simp
qed

text \<open>
  The claim as the specification words it fails: the search string \<open>.\<close> matches a
  document whose title is \<open>abc\<close>, which does not contain a full stop; the empty
  category matches a document whose category is \<open>Food\<close>; the empty search string matches
  a document whose title is null and that has no description; and the category \<open>Food\<close>
  matches a document whose category is the array of \<open>Food\<close> and \<open>Home\<close>.
\<close>

theorem filter_dict_literal_counterexample:
  "filter_matches (plain_store []) (filter_dict None (Some ''.''))
     (titled (VStr ''abc'') (VStr ''Food'')) \<and>
   \<not> spec_matches None (Some ''.'') (titled (VStr ''abc'') (VStr ''Food'')) \<and>
   filter_matches (plain_store []) (filter_dict (Some []) None)
     (titled (VStr ''abc'') (VStr ''Food'')) \<and>
   \<not> spec_matches (Some []) None (titled (VStr ''abc'') (VStr ''Food'')) \<and>
   filter_matches (plain_store []) (filter_dict None (Some []))
     (titled VNull (VStr ''Food'')) \<and>
   \<not> spec_matches None (Some []) (titled VNull (VStr ''Food'')) \<and>
   filter_matches (plain_store []) (filter_dict (Some ''Food'') None)
     (titled (VStr ''abc'') (VArr [VStr ''Food'', VStr ''Home''])) \<and>
   \<not> spec_matches (Some ''Food'') None
     (titled (VStr ''abc'') (VArr [VStr ''Food'', VStr ''Home'']))"
  by (simp add: filter_matches_def filter_dict_def get_field_def regex_compile_def
      metachars_def non_ascii_def spec_matches_def ci_contains_def titled_def plain_store_def
      ascii_fold_def sublist_Cons_right)

text \<open>
  C9. An empty-string parameter of the list operation is treated as an omitted one: for
  every store handle, the call with the empty category is the call without category, and
  the call with the empty search string is the call without search string; the filter
  built from two empty strings is the empty filter, which every document matches.
\<close>

theorem list_products_empty_params:
  "list_products rt db (Some []) q = list_products rt db None q \<and>
   list_products rt db cat (Some []) = list_products rt db cat None \<and>
   filter_dict (Some []) (Some []) = [] \<and>
   filter_matches s (filter_dict (Some []) (Some [])) d"
  by (simp add: list_products_def filter_dict_def filter_matches_def)

section \<open>Seeding\<close>

lemma create_document_quiet:
  "faults s = [] \<Longrightarrow>
   create_document (Some s) d =
     (Inr (str_oid (next_oid s)),
      Some (s\<lparr>product := product s @ [d\<lparr>d_id := Some (VOid (next_oid s))\<rparr>],
              next_oid := Suc (next_oid s)\<rparr>))"
  by (simp add: create_document_def insert_one_def next_fault_quiet)

lemma strip_id_assigned: "strip_id (d\<lparr>d_id := i\<rparr>) = strip_id d"
  by (simp add: strip_id_def)

lemma create_all_quiet:
  "faults s = [] \<Longrightarrow>
   \<exists>s'. create_all (Some s) ds = (Inr (), Some s') \<and> faults s' = [] \<and>
        map strip_id (product s') = map strip_id (product s) @ map strip_id ds"
proof (induction ds arbitrary: s)
  case Nil
  then show ?case by simp
next
  case (Cons d ds)
  let ?s1 = "s\<lparr>product := product s @ [d\<lparr>d_id := Some (VOid (next_oid s))\<rparr>],
               next_oid := Suc (next_oid s)\<rparr>"
  have "faults ?s1 = []" using Cons.prems by simp
  from Cons.IH [OF this] obtain s' where
    s': "create_all (Some ?s1) ds = (Inr (), Some s')" "faults s' = []"
        "map strip_id (product s') = map strip_id (product ?s1) @ map strip_id ds"
    by blast
  have "create_all (Some s) (d # ds) = (Inr (), Some s')"
    using s'(1) by (simp add: create_document_quiet [OF Cons.prems])
  moreover have "map strip_id (product s') = map strip_id (product s) @ map strip_id (d # ds)"
    using s'(3) by (simp add: strip_id_assigned)
  ultimately show ?case using s'(2) by blast
qed

lemma seed_existing:
  assumes "product s \<noteq> []" and "next_ok s"
  shows "seed_products (Some s) =
           (Inr [(''status'', JStr ''ok''), (''seeded'', JBool False),
                 (''existing'', JInt (int (length (product s))))],
            Some (s\<lparr>faults := tl (faults s)\<rparr>))"
  using assms by (simp add: seed_products_def count_documents_def next_fault_ok)

text \<open>
  C2. Against an available store with an empty collection and no store error, the first
  call of the seed operation inserts the five sample products and reports
  \<open>seeded = true, count = 5\<close>; a second call inserts nothing and reports
  \<open>seeded = false, existing = 5\<close>. Whenever the collection is not empty and the count
  succeeds, the seed operation leaves the collection as it is and reports
  \<open>seeded = false\<close> with the existing count.
\<close>

theorem seed_twice:
  "(product s = [] \<and> faults s = [] \<longrightarrow>
      (\<exists>s1. seed_products (Some s) =
               (Inr [(''status'', JStr ''ok''), (''seeded'', JBool True), (''count'', JInt 5)],
                Some s1) \<and>
            map strip_id (product s1) = samples \<and>
            seed_products (Some s1) =
               (Inr [(''status'', JStr ''ok''), (''seeded'', JBool False),
                     (''existing'', JInt 5)], Some s1))) \<and>
   (product s \<noteq> [] \<and> next_ok s \<longrightarrow>
      (\<exists>s'. seed_products (Some s) =
               (Inr [(''status'', JStr ''ok''), (''seeded'', JBool False),
                     (''existing'', JInt (int (length (product s))))], Some s') \<and>
            product s' = product s))"
proof (intro conjI impI)
  assume a: "product s = [] \<and> faults s = []"
  then have q: "faults s = []" and e: "product s = []" by simp_all
  from create_all_quiet [OF q, of samples] obtain s1 where
    s1: "create_all (Some s) samples = (Inr (), Some s1)" "faults s1 = []"
        "map strip_id (product s1) = map strip_id (product s) @ map strip_id samples"
    by blast
  have p1: "map strip_id (product s1) = samples"
    using s1(3) e by (simp add: strip_samples)
  then have len: "length (product s1) = 5"
    using length_samples by (metis length_map)
  have first: "seed_products (Some s) =
      (Inr [(''status'', JStr ''ok''), (''seeded'', JBool True), (''count'', JInt 5)], Some s1)"
    using s1(1) e q
    by (simp add: seed_products_def count_documents_def next_fault_quiet length_samples)
  have "product s1 \<noteq> []" using len by auto
  moreover have "next_ok s1" using s1(2) by (simp add: next_ok_def)
  ultimately have second: "seed_products (Some s1) =
      (Inr [(''status'', JStr ''ok''), (''seeded'', JBool False), (''existing'', JInt 5)],
       Some s1)"
    using seed_existing [of s1] s1(2) len by simp
  show "\<exists>s1. seed_products (Some s) =
               (Inr [(''status'', JStr ''ok''), (''seeded'', JBool True), (''count'', JInt 5)],
                Some s1) \<and>
            map strip_id (product s1) = samples \<and>
            seed_products (Some s1) =
               (Inr [(''status'', JStr ''ok''), (''seeded'', JBool False),
                     (''existing'', JInt 5)], Some s1)"
    using first p1 second by blast
next
  assume "product s \<noteq> [] \<and> next_ok s"
  then show "\<exists>s'. seed_products (Some s) =
               (Inr [(''status'', JStr ''ok''), (''seeded'', JBool False),
                     (''existing'', JInt (int (length (product s))))], Some s') \<and>
            product s' = product s"
    using seed_existing [of s] by simp
qed

text \<open>
  Both parts at concrete stores: the empty store seeded twice, and a store that already
  holds one product.
\<close>

theorem seed_twice_witness:
  "fst (seed_products (Some (plain_store []))) =
     Inr [(''status'', JStr ''ok''), (''seeded'', JBool True), (''count'', JInt 5)] \<and>
   fst (seed_products (snd (seed_products (Some (plain_store []))))) =
     Inr [(''status'', JStr ''ok''), (''seeded'', JBool False), (''existing'', JInt 5)] \<and>
   fst (seed_products (Some (plain_store [sample ''A'' ''B'' 1 ''C'']))) =
     Inr [(''status'', JStr ''ok''), (''seeded'', JBool False), (''existing'', JInt 1)]"
  using seed_twice [of "plain_store []"] seed_twice [of "plain_store [sample ''A'' ''B'' 1 ''C'']"]
  by (auto simp: plain_store_def next_ok_def)

lemma create_all_unavailable:
  "ds \<noteq> [] \<Longrightarrow> create_all None ds = (Inl StoreUnavailable, None)"
  by (cases ds) (simp_all add: create_document_def)

text \<open>
  C7. With the store handle unavailable the count check of the seed operation yields 0,
  the first insert raises, and the operation ends in a server error (status 500); it
  does not report \<open>seeded = true\<close>. An insert on an unavailable handle raises for every
  document.
\<close>

theorem seed_unavailable_fails:
  "seed_products None = (Inl (HTTPException 500 unavailable_msg), None) \<and>
   create_document None d = (Inl StoreUnavailable, None)"
  by (simp add: seed_products_def create_all_unavailable samples_def create_document_def)

lemma create_all_ok:
  "create_all (Some s) ds = (Inr u, db') \<Longrightarrow>
   \<exists>s'. db' = Some s' \<and> map strip_id (product s') = map strip_id (product s) @ map strip_id ds"
proof (induction ds arbitrary: s)
  case Nil
  then show ?case by auto
next
  case (Cons d ds)
  show ?case
  proof (cases "next_fault s")
    case (Pair f s0)
    show ?thesis
    proof (cases f)
      case (Some m)
      with Pair Cons.prems show ?thesis
        by (simp add: create_document_def insert_one_def)
    next
      case None
      let ?s1 = "s0\<lparr>product := product s0 @ [d\<lparr>d_id := Some (VOid (next_oid s0))\<rparr>],
                    next_oid := Suc (next_oid s0)\<rparr>"
      have p0: "product s0 = product s"
        using Pair by (auto simp: next_fault_def split: list.splits)
      from None Pair Cons.prems have "create_all (Some ?s1) ds = (Inr u, db')"
        by (simp add: create_document_def insert_one_def)
      from Cons.IH [OF this] obtain s' where
        "db' = Some s'" "map strip_id (product s') = map strip_id (product ?s1) @ map strip_id ds"
        by blast
      then show ?thesis
        by (simp add: p0 strip_id_assigned)
    qed
  qed
qed

lemma create_document_ok:
  "faults s = None # fs \<Longrightarrow>
   create_document (Some s) d =
     (Inr (str_oid (next_oid s)),
      Some (s\<lparr>product := product s @ [d\<lparr>d_id := Some (VOid (next_oid s))\<rparr>],
              next_oid := Suc (next_oid s), faults := fs\<rparr>))"
  by (simp add: create_document_def insert_one_def next_fault_def)

lemma create_document_fault:
  "faults s = Some m # fs \<Longrightarrow>
   create_document (Some s) d = (Inl (StoreOperationFailed m), Some (s\<lparr>faults := fs\<rparr>))"
  by (simp add: create_document_def insert_one_def next_fault_def)

lemma create_all_fault:
  "faults s = replicate j None @ Some m # fs \<Longrightarrow> j < length ds \<Longrightarrow>
   \<exists>s'. create_all (Some s) ds = (Inl (StoreOperationFailed m), Some s') \<and>
        map strip_id (product s') = map strip_id (product s) @ map strip_id (take j ds) \<and>
        faults s' = fs"
proof (induction j arbitrary: s ds)
  case 0
  then obtain d ds' where ds: "ds = d # ds'" by (cases ds) auto
  from 0 have "faults s = Some m # fs" by simp
  from create_document_fault [OF this] show ?case
    by (simp add: ds)
next
  case (Suc j)
  then obtain d ds' where ds: "ds = d # ds'" by (cases ds) auto
  let ?s1 = "s\<lparr>product := product s @ [d\<lparr>d_id := Some (VOid (next_oid s))\<rparr>],
               next_oid := Suc (next_oid s), faults := replicate j None @ Some m # fs\<rparr>"
  from Suc.prems have f: "faults s = None # (replicate j None @ Some m # fs)" by simp
  have "faults ?s1 = replicate j None @ Some m # fs" by simp
  moreover have "j < length ds'" using Suc.prems ds by simp
  ultimately obtain s' where
    s': "create_all (Some ?s1) ds' = (Inl (StoreOperationFailed m), Some s')"
        "map strip_id (product s') = map strip_id (product ?s1) @ map strip_id (take j ds')"
        "faults s' = fs"
    using Suc.IH [of ?s1 ds'] by blast
  have "create_all (Some s) ds = (Inl (StoreOperationFailed m), Some s')"
    using s'(1) by (simp add: ds create_document_ok [OF f])
  moreover have "map strip_id (product s') = map strip_id (product s) @ map strip_id (take (Suc j) ds)"
    using s'(2) by (simp add: ds strip_id_assigned)
  ultimately show ?case using s'(3) by blast
qed

text \<open>
  C10. The seed operation inserts the samples one at a time and has no rollback. On an
  empty collection, when the count and the first \<open>j\<close> inserts succeed and the next
  insert raises (\<open>j < 5\<close>), the operation ends in a server error (status 500) that
  carries the text of the store error, and the collection holds the first \<open>j\<close> samples.
  It reports success only when all five samples have been inserted.
\<close>

theorem seed_not_atomic:
  "(product s = [] \<and> faults s = None # replicate j None @ Some m # fs \<and> j < 5 \<longrightarrow>
      (\<exists>s'. seed_products (Some s) = (Inl (HTTPException 500 m), Some s') \<and>
            map strip_id (product s') = take j samples \<and> faults s' = fs)) \<and>
   (product s = [] \<and> seed_products (Some s) = (Inr r, db') \<longrightarrow>
      (\<exists>s'. db' = Some s' \<and> map strip_id (product s') = samples \<and>
            r = [(''status'', JStr ''ok''), (''seeded'', JBool True), (''count'', JInt 5)]))"
proof (intro conjI impI)
  assume a: "product s = [] \<and> faults s = None # replicate j None @ Some m # fs \<and> j < 5"
  let ?s0 = "s\<lparr>faults := replicate j None @ Some m # fs\<rparr>"
  have "faults ?s0 = replicate j None @ Some m # fs" by simp
  moreover have "j < length samples" using a by (simp add: length_samples)
  ultimately obtain s' where
    s': "create_all (Some ?s0) samples = (Inl (StoreOperationFailed m), Some s')"
        "map strip_id (product s') = map strip_id (product ?s0) @ map strip_id (take j samples)"
        "faults s' = fs"
    using create_all_fault [of ?s0 j m fs samples] by blast
  have "seed_products (Some s) = (Inl (HTTPException 500 m), Some s')"
    using a s'(1) by (simp add: seed_products_def count_documents_def next_fault_def)
  moreover have "map strip_id (product s') = take j samples"
    using s'(2) a by (simp add: take_map [symmetric] strip_samples)
  ultimately show "\<exists>s'. seed_products (Some s) = (Inl (HTTPException 500 m), Some s') \<and>
            map strip_id (product s') = take j samples \<and> faults s' = fs"
    using s'(3) by blast
next
  assume a: "product s = [] \<and> seed_products (Some s) = (Inr r, db')"
  obtain f s0 where nf: "next_fault s = (f, s0)" by (cases "next_fault s")
  have p0: "product s0 = []"
    using nf a by (auto simp: next_fault_def split: list.splits)
  show "\<exists>s'. db' = Some s' \<and> map strip_id (product s') = samples \<and>
            r = [(''status'', JStr ''ok''), (''seeded'', JBool True), (''count'', JInt 5)]"
  proof (cases f)
    case (Some m)
    with nf a show ?thesis
      by (simp add: seed_products_def count_documents_def)
  next
    case None
    obtain x db1 where ca: "create_all (Some s0) samples = (x, db1)"
      by (cases "create_all (Some s0) samples")
    show ?thesis
    proof (cases x)
      case (Inl e)
      with None nf a ca p0 show ?thesis
        by (simp add: seed_products_def count_documents_def)
    next
      case (Inr u)
      with None nf a ca p0 have r: "db' = db1"
        "r = [(''status'', JStr ''ok''), (''seeded'', JBool True), (''count'', JInt 5)]"
        by (simp_all add: seed_products_def count_documents_def length_samples)
      from create_all_ok [of s0 samples u db1] ca Inr obtain s' where
        "db1 = Some s'" "map strip_id (product s') = map strip_id (product s0) @ map strip_id samples"
        by auto
      then show ?thesis
        using r p0 by (simp add: strip_samples)
    qed
  qed
qed

text \<open>
  A store whose third insert raises keeps the first two samples; a store without errors
  reports success and holds all five.
\<close>

theorem seed_not_atomic_witness:
  "product leaky_store = [] \<and>
   fst (seed_products (Some leaky_store)) = Inl (HTTPException 500 ''disk full'') \<and>
   map_option (\<lambda>s'. map strip_id (product s')) (snd (seed_products (Some leaky_store))) =
     Some (take 2 samples) \<and>
   fst (seed_products (Some (plain_store []))) =
     Inr [(''status'', JStr ''ok''), (''seeded'', JBool True), (''count'', JInt 5)] \<and>
   map_option (\<lambda>s'. map strip_id (product s')) (snd (seed_products (Some (plain_store [])))) =
     Some samples"
proof -
  have a: "product leaky_store = [] \<and>
      faults leaky_store = None # replicate 2 None @ Some ''disk full'' # [] \<and> (2::nat) < 5"
    by (simp add: leaky_store_def numeral_2_eq_2)
  have q: "faults (plain_store []) = []"
    by (simp add: plain_store_def)
  from create_all_quiet [OF q, of samples] obtain s1 where
    "create_all (Some (plain_store [])) samples = (Inr (), Some s1)"
    by blast
  then have b: "product (plain_store []) = [] \<and>
      seed_products (Some (plain_store [])) =
        (Inr [(''status'', JStr ''ok''), (''seeded'', JBool True), (''count'', JInt 5)], Some s1)"
    using q
    by (simp add: seed_products_def count_documents_def next_fault_quiet length_samples)
      (simp add: plain_store_def)
  from seed_not_atomic [of leaky_store 2 "''disk full''" "[]" "[]" None, THEN conjunct1] a
  have c: "fst (seed_products (Some leaky_store)) = Inl (HTTPException 500 ''disk full'') \<and>
      map_option (\<lambda>s'. map strip_id (product s')) (snd (seed_products (Some leaky_store))) =
        Some (take 2 samples)"
    by auto
  from seed_not_atomic [of "plain_store []" 0 "[]" "[]"
      "[(''status'', JStr ''ok''), (''seeded'', JBool True), (''count'', JInt 5)]" "Some s1",
      THEN conjunct2] b
  have d: "map strip_id (product s1) = samples"
    by auto
  show ?thesis
    using a b c d by simp
qed

section \<open>Store errors\<close>

text \<open>
  C3. The catalog operations surface the text of a store error in full: with a store
  whose next call raises an error of 68 characters, the category listing, the seed
  operation and the creation of a product each end in a server error whose detail is the
  whole text, not its first 50 characters.
\<close>

theorem store_error_detail_not_truncated:
  "fst (list_categories rt (Some faulty_store)) = Inl (HTTPException 500 long_msg) \<and>
   fst (seed_products (Some faulty_store)) = Inl (HTTPException 500 long_msg) \<and>
   fst (create_product (Some faulty_store)
          \<lparr>p_title = ''X'', p_description = None, p_price = 1, p_category = ''Y'',
           p_in_stock = True\<rparr>) = Inl (HTTPException 500 long_msg) \<and>
   length long_msg = 68"
  by (simp add: list_categories_def seed_products_def create_product_def create_document_def
      insert_one_def distinct_values_def count_documents_def next_fault_def faulty_store_def
      long_msg_def)

section \<open>Normalising a stored document\<close>

lemma price_arg_cases:
  "price_arg rt d = Inl e \<Longrightarrow> e = TypeError \<or> e = ValueError"
  by (cases "dict_get_default (d_price d) (VInt 0)")
     (auto simp: price_arg_def split: option.splits)

lemma price_arg_number:
  "num_or_absent (d_price d) \<Longrightarrow> \<exists>pr. price_arg rt d = Inr pr"
  by (cases "d_price d"; cases "the (d_price d)")
     (simp_all add: num_or_absent_def price_arg_def dict_get_default_def)

text \<open>
  C4 (as amended). For every stored document that lacks the title field, normalization
  does not succeed and no public record is produced. When the conversion of the price to
  a float succeeds, as it does for an absent price and for a number, the construction of
  the record is rejected by a validation error whose first entry names \<open>title\<close>. When the
  conversion raises, as it does for a null price, its \<open>TypeError\<close> or \<open>ValueError\<close> is
  what normalization raises.
\<close>

theorem product_out_missing_title:
  assumes "d_title d = None"
  shows "(\<forall>pr. price_arg rt d = Inr pr \<longrightarrow>
            (\<exists>fs. product_out rt d = Inl (ValidationError (''title'' # fs)))) \<and>
         (\<forall>e. price_arg rt d = Inl e \<longrightarrow>
            product_out rt d = Inl e \<and> (e = TypeError \<or> e = ValueError)) \<and>
         (num_or_absent (d_price d) \<longrightarrow> (\<exists>pr. price_arg rt d = Inr pr)) \<and>
         (d_price d = Some VNull \<longrightarrow> price_arg rt d = Inl TypeError) \<and>
         (\<forall>p. product_out rt d \<noteq> Inr p)"
proof (intro conjI allI impI)
  fix pr
  assume "price_arg rt d = Inr pr"
  then show "\<exists>fs. product_out rt d = Inl (ValidationError (''title'' # fs))"
    using assms
    by (simp add: product_out_def ProductOut_init_def dict_get_def str_arg_def
        split: option.splits)
next
  fix e
  assume e: "price_arg rt d = Inl e"
  then show "product_out rt d = Inl e"
    by (simp add: product_out_def)
  from e show "e = TypeError \<or> e = ValueError"
    by (rule price_arg_cases)
next
  assume "num_or_absent (d_price d)"
  then show "\<exists>pr. price_arg rt d = Inr pr"
    by (rule price_arg_number)
next
  assume "d_price d = Some VNull"
  then show "price_arg rt d = Inl TypeError"
    by (simp add: price_arg_def dict_get_default_def)
next
  fix p
  show "product_out rt d \<noteq> Inr p"
    using assms
    by (simp add: product_out_def ProductOut_init_def dict_get_def str_arg_def
        split: sum.splits option.splits)
qed

lemma list_products_plain:
  "fst (list_products rt (Some (plain_store ds)) None None) =
     (case out_loop rt ds [] of
        Inl e \<Rightarrow> Inl (Uncaught e)
      | Inr out \<Rightarrow> Inr out)"
  by (simp add: list_products_def get_documents_def find_def next_fault_def plain_store_def
      filter_dict_def filter_error_def filter_matches_def split: sum.splits)

lemma product_out_untitled:
  "product_out strict_runtime untitled = Inl (ValidationError [''title''])"
  by (simp add: untitled_def product_out_def price_arg_def dict_get_default_def
      ProductOut_init_def dict_get_def str_arg_def opt_str_arg_def)

text \<open>
  A document without title whose price is a number: its normalisation is rejected with
  the validation error for \<open>title\<close>, and listing a store that holds it ends in that
  uncaught error. The same document with a null price: its normalisation raises
  \<open>TypeError\<close>.
\<close>

theorem product_out_missing_title_witness:
  "d_title untitled = None \<and>
   product_out strict_runtime untitled = Inl (ValidationError [''title'']) \<and>
   fst (list_products strict_runtime (Some (plain_store [untitled])) None None) =
     Inl (Uncaught (ValidationError [''title''])) \<and>
   d_title untitled_null_price = None \<and>
   product_out strict_runtime untitled_null_price = Inl TypeError"
proof -
  have a: "d_title untitled = None"
    by (simp add: untitled_def)
  have b: "d_title untitled_null_price = None"
    and n: "d_price untitled_null_price = Some VNull"
    by (simp_all add: untitled_null_price_def untitled_def)
  from product_out_missing_title [OF b, of strict_runtime] n
  have "product_out strict_runtime untitled_null_price = Inl TypeError"
    by simp
  moreover
  from product_out_missing_title [OF a, of strict_runtime]
  have "\<forall>p. product_out strict_runtime untitled \<noteq> Inr p"
    by simp
  moreover
  have "fst (list_products strict_runtime (Some (plain_store [untitled])) None None) =
     Inl (Uncaught (ValidationError [''title'']))"
    by (simp add: list_products_plain product_out_untitled)
  ultimately show ?thesis
    using a b by (simp add: product_out_untitled)
qed

text \<open>
  The claim as the specification words it fails: the normalisation of this document
  without title does not succeed.
\<close>

theorem product_out_missing_title_counterexample:
  "d_title untitled = None \<and>
   product_out strict_runtime untitled = Inl (ValidationError [''title''])"
  by (simp add: product_out_untitled) (simp add: untitled_def)

text \<open>
  C5 (as amended). For every stored document whose title and category are strings,
  whose description is absent, null or a string and whose price is absent or a number
  (an integer, a float or a boolean), normalization succeeds, and in the public record a
  missing price is 0, a missing \<open>in_stock\<close> is true, and a missing description is the
  null value: the field \<open>description\<close> is present in the record and holds null, it is
  not omitted.
\<close>

theorem product_out_defaults:
  assumes "d_title d = Some (VStr t)" and "d_category d = Some (VStr c)"
    and "str_or_null (d_description d)" and "num_or_absent (d_price d)"
  shows "\<exists>p. product_out rt d = Inr p \<and> title p = t \<and> category p = c \<and>
           (d_price d = None \<longrightarrow> price p = 0) \<and>
           (d_in_stock d = None \<longrightarrow> in_stock p = True) \<and>
           (d_description d = None \<longrightarrow>
              description p = None \<and> map_of (model_fields p) ''description'' = Some JNull)"
proof -
  from assms(4) obtain pr where pr: "price_arg rt d = Inr pr"
    using price_arg_number by blast
  have zero: "d_price d = None \<longrightarrow> pr = 0"
    using pr by (auto simp: price_arg_def dict_get_default_def)
  from assms(3) obtain dsc where dsc: "opt_str_arg rt (dict_get (d_description d)) = Some dsc"
    and none: "d_description d = None \<longrightarrow> dsc = None"
    by (cases "d_description d"; cases "the (d_description d)")
       (auto simp: str_or_null_def is_str_def opt_str_arg_def str_arg_def dict_get_def)
  have "product_out rt d =
      Inr \<lparr>id' = py_str rt (dict_get (d_id d)), title = t, description = dsc, price = pr,
           category = c,
           in_stock = py_bool (dict_get_default (d_in_stock d) (VBool True))\<rparr>"
    using assms(1,2) pr dsc
    by (simp add: product_out_def ProductOut_init_def dict_get_def str_arg_def)
  then show ?thesis
    using zero none by (simp add: model_fields_def dict_get_default_def)
qed

lemma product_out_bare: "product_out strict_runtime bare = Inr bare_out"
  by (simp add: bare_def bare_out_def product_out_def price_arg_def dict_get_default_def
      ProductOut_init_def dict_get_def str_arg_def opt_str_arg_def str_oid_7)

text \<open>A document with only an identifier, a title and a category.\<close>

theorem product_out_defaults_witness:
  "product_out strict_runtime bare = Inr bare_out \<and> price bare_out = 0 \<and> in_stock bare_out \<and>
   description bare_out = None"
proof -
  have a: "d_title bare = Some (VStr ''X'')" and b: "d_category bare = Some (VStr ''Y'')"
    by (simp_all add: bare_def)
  have c: "d_price bare = None" "d_in_stock bare = None" "d_description bare = None"
    by (simp_all add: bare_def)
  have e: "str_or_null (d_description bare)" and f: "num_or_absent (d_price bare)"
    by (simp_all add: c str_or_null_def num_or_absent_def)
  from product_out_defaults [OF a b e f, of strict_runtime] c obtain p where
    "product_out strict_runtime bare = Inr p" "price p = 0" "in_stock p" "description p = None"
    by auto
  then show ?thesis
    by (simp add: product_out_bare)
qed

text \<open>
  The claim as the specification words it fails: the record of a document without
  description has the field \<open>description\<close>, holding null; a document without
  \<open>in_stock\<close> whose price is null is not normalised at all, its conversion raises
  \<open>TypeError\<close>; and a document without price and without title is not normalised
  either, its record is rejected.
\<close>

theorem product_out_description_counterexample:
  "d_description bare = None \<and> product_out strict_runtime bare = Inr bare_out \<and>
   map_of (model_fields bare_out) ''description'' = Some JNull \<and>
   d_in_stock null_price = None \<and> product_out strict_runtime null_price = Inl TypeError \<and>
   d_price only_category = None \<and>
   product_out strict_runtime only_category = Inl (ValidationError [''title''])"
  by (simp add: product_out_bare)
     (simp add: bare_def bare_out_def model_fields_def null_price_def only_category_def
        product_out_def price_arg_def dict_get_default_def ProductOut_init_def dict_get_def
        str_arg_def opt_str_arg_def strict_runtime_def)

section \<open>Listing categories\<close>

lemma bson_key_str: "is_str v \<Longrightarrow> bson_key v = v"
  by (cases v) (simp_all add: is_str_def)

lemma dedupe_subset: "set (dedupe xs) \<subseteq> set xs"
  by (induction xs rule: dedupe.induct) auto

lemma distinct_dedupe: "distinct (dedupe xs)"
proof (induction xs rule: dedupe.induct)
  case 1
  show ?case by simp
next
  case (2 x xs)
  have "x \<notin> set (dedupe (filter (\<lambda>y. bson_key y \<noteq> bson_key x) xs))"
    using dedupe_subset [of "filter (\<lambda>y. bson_key y \<noteq> bson_key x) xs"] by auto
  with 2 show ?case by simp
qed

lemma set_dedupe_str: "list_all is_str xs \<Longrightarrow> set (dedupe xs) = set xs"
proof (induction xs rule: dedupe.induct)
  case 1
  show ?case by simp
next
  case (2 x xs)
  from "2.prems" have x: "is_str x" and xs: "list_all is_str xs"
    by simp_all
  have f: "filter (\<lambda>y. bson_key y \<noteq> bson_key x) xs = filter (\<lambda>y. y \<noteq> x) xs"
    using x xs by (intro filter_cong refl) (simp add: list_all_iff bson_key_str)
  have "list_all is_str (filter (\<lambda>y. bson_key y \<noteq> bson_key x) xs)"
    using xs by (simp add: list_all_iff)
  from "2.IH" [OF this] show ?case
    by (auto simp: f)
qed

lemma distinct_strings: "distinct xs \<Longrightarrow> distinct (strings xs)"
  by (induction xs rule: strings.induct) (auto simp: set_strings)

lemma field_values_category:
  "list_all (\<lambda>d. str_or_absent (d_category d)) ds \<Longrightarrow>
   list_all is_str (field_values ''category'' ds) \<and>
   set (strings (field_values ''category'' ds)) =
     {c. \<exists>d \<in> set ds. d_category d = Some (VStr c)}"
proof (induction ds)
  case Nil
  show ?case by simp
next
  case (Cons d ds)
  then have ih: "list_all is_str (field_values ''category'' ds)"
    "set (strings (field_values ''category'' ds)) =
       {c. \<exists>d \<in> set ds. d_category d = Some (VStr c)}"
    by simp_all
  from Cons.prems have "str_or_absent (d_category d)" by simp
  then consider "d_category d = None" | c where "d_category d = Some (VStr c)"
    by (cases "d_category d"; cases "the (d_category d)")
       (auto simp: str_or_absent_def is_str_def)
  then show ?case
  proof cases
    case 1
    with ih show ?thesis
      by (auto simp: get_field_def)
  next
    case 2
    have "is_str (VStr c)"
      by (simp add: is_str_def)
    with 2 ih show ?thesis
      by (auto simp: get_field_def)
  qed
qed

text \<open>
  C6 (as amended). With the store handle unavailable the category listing returns the
  empty sequence. For every state of the collection in which the category of each
  document is absent or a string, and with a store call that succeeds, it returns the
  categories of the stored products, each exactly once, in ascending lexicographic
  order.
\<close>

theorem list_categories_sorted:
  "list_categories rt None = (Inr [], None) \<and>
   (next_ok s \<and> string_categories s \<longrightarrow>
      (\<exists>cs s'. list_categories rt (Some s) = (Inr (map VStr cs), Some s') \<and>
         sorted cs \<and> distinct cs \<and>
         set cs = {c. \<exists>d \<in> set (product s). d_category d = Some (VStr c)}))"
proof (intro conjI impI)
  show "list_categories rt None = (Inr [], None)"
    by (simp add: list_categories_def py_sort_def)
next
  assume a: "next_ok s \<and> string_categories s"
  let ?vs = "field_values ''category'' (product s)"
  let ?cs = "sort (strings (dedupe ?vs))"
  from a have fv: "list_all is_str ?vs"
    "set (strings ?vs) = {c. \<exists>d \<in> set (product s). d_category d = Some (VStr c)}"
    using field_values_category [of "product s"] by (simp_all add: string_categories_def)
  have sd: "set (dedupe ?vs) = set ?vs"
    using fv(1) by (rule set_dedupe_str)
  then have all: "list_all is_str (dedupe ?vs)"
    using fv(1) by (simp add: list_all_iff)
  have "list_categories rt (Some s) = (Inr (map VStr ?cs), Some (s\<lparr>faults := tl (faults s)\<rparr>))"
    using a all
    by (simp add: list_categories_def distinct_values_def next_fault_ok py_sort_def)
  moreover have "sorted ?cs"
    by simp
  moreover have "distinct ?cs"
    by (simp add: distinct_strings distinct_dedupe)
  moreover have "set ?cs = {c. \<exists>d \<in> set (product s). d_category d = Some (VStr c)}"
    using fv(2) sd by (simp add: set_strings)
  ultimately show "\<exists>cs s'. list_categories rt (Some s) = (Inr (map VStr cs), Some s') \<and>
         sorted cs \<and> distinct cs \<and>
         set cs = {c. \<exists>d \<in> set (product s). d_category d = Some (VStr c)}"
    by blast
qed

lemma list_categories_seeded:
  "fst (list_categories rt (Some seeded_store)) =
     Inr [VStr ''Clothes'', VStr ''Electronics'', VStr ''Food'', VStr ''Home'']"
  by (simp add: seeded_store_def plain_store_def list_categories_def distinct_values_def
      next_fault_def samples_def sample_def get_field_def py_sort_def is_str_def)

text \<open>The categories of the seeded store: \<open>Food\<close> occurs twice and is listed once.\<close>

theorem list_categories_sorted_witness:
  "next_ok seeded_store \<and> string_categories seeded_store \<and>
   fst (list_categories strict_runtime (Some seeded_store)) =
     Inr [VStr ''Clothes'', VStr ''Electronics'', VStr ''Food'', VStr ''Home'']"
proof -
  have a: "next_ok seeded_store"
    by (simp add: seeded_store_def plain_store_def next_ok_def)
  have b: "string_categories seeded_store"
    by (simp add: seeded_store_def plain_store_def string_categories_def samples_def
        sample_def str_or_absent_def is_str_def)
  from list_categories_sorted [of strict_runtime seeded_store] a b
  obtain cs s' where
    e: "list_categories strict_runtime (Some seeded_store) = (Inr (map VStr cs), Some s')"
    by blast
  have "map VStr cs = [VStr ''Clothes'', VStr ''Electronics'', VStr ''Food'', VStr ''Home'']"
    using list_categories_seeded [of strict_runtime] by (simp add: e)
  with a b e show ?thesis
    by simp
qed

text \<open>
  The claim as the specification words it fails: in a collection that holds a product
  whose category is null and a product whose category is a string, the distinct values
  cannot be sorted, and the category listing ends in a server error (status 500) with
  the text of the \<open>TypeError\<close>.
\<close>

theorem list_categories_null_counterexample:
  "fst (list_categories strict_runtime (Some null_category_store)) =
     Inl (HTTPException 500 (sort_msg strict_runtime [VNull, VStr ''a'']))"
  by (simp add: null_category_store_def plain_store_def titled_def list_categories_def
      distinct_values_def next_fault_def get_field_def py_sort_def is_str_def unorderable_def)

section \<open>Searching the seeded catalog\<close>

lemma strip_id_sample:
  "strip_id d = sample t dsc pr c \<Longrightarrow>
   d = \<lparr>d_id = d_id d, d_title = Some (VStr t), d_description = Some (VStr dsc),
        d_price = Some (VNum pr), d_category = Some (VStr c), d_in_stock = Some (VBool True)\<rparr>"
  by (cases d) (simp add: strip_id_def sample_def)

lemma cacao_filter_ok: "filter_error s (filter_dict (Some ''Food'') (Some ''cacao'')) = None"
  by (simp add: filter_error_def filter_dict_def regex_compile_def metachars_def
      non_ascii_def)

lemma cacao_filter_matches:
  "filter_matches s (filter_dict (Some ''Food'') (Some ''cacao''))
     \<lparr>d_id = i, d_title = Some (VStr t), d_description = Some (VStr dsc), d_price = pr,
      d_category = Some (VStr c), d_in_stock = st\<rparr> =
   (c = ''Food'' \<and> (search True (map Lit ''cacao'') t \<or> search True (map Lit ''cacao'') dsc))"
  by (auto simp: filter_matches_def filter_dict_def regex_compile_def metachars_def
      non_ascii_def get_field_def)

lemma cacao_not_in_granola_title: "\<not> search True (map Lit ''cacao'') ''Organic Granola''"
  by code_simp

lemma cacao_not_in_granola_description:
  "\<not> search True (map Lit ''cacao'') ''Crunchy, honey-sweetened breakfast granola.''"
  by code_simp

lemma cacao_in_chocolate_description:
  "search True (map Lit ''cacao'') ''70% cacao premium chocolate bar.''"
  by code_simp

lemma product_out_full:
  "product_out rt \<lparr>d_id = i, d_title = Some (VStr t), d_description = Some (VStr dsc),
                   d_price = Some (VNum pr), d_category = Some (VStr c),
                   d_in_stock = Some (VBool st)\<rparr> =
   Inr \<lparr>id' = py_str rt (dict_get i), title = t, description = Some dsc, price = pr,
        category = c, in_stock = st\<rparr>"
  by (simp add: product_out_def price_arg_def dict_get_default_def ProductOut_init_def
      dict_get_def str_arg_def opt_str_arg_def)

text \<open>
  C8. When the store holds exactly the five sample products and its call succeeds, the
  list operation with category \<open>Food\<close> and search string \<open>cacao\<close> returns exactly one
  product, the Gourmet Dark Chocolate entry, under the identifier the store gave it.
\<close>

theorem food_cacao:
  assumes "map strip_id (product s) = samples" and "next_ok s"
  shows "fst (list_products rt (Some s) (Some ''Food'') (Some ''cacao'')) =
           Inr [\<lparr>id' = py_str rt (dict_get (d_id (product s ! 4))),
                 title = ''Gourmet Dark Chocolate'',
                 description = Some ''70% cacao premium chocolate bar.'', price = 399 / 100,
                 category = ''Food'', in_stock = True\<rparr>]"
proof -
  from assms(1) obtain d0 d1 d2 d3 d4 where
    ps: "product s = [d0, d1, d2, d3, d4]"
    and s0: "strip_id d0 = sample ''Classic White T-Shirt''
               ''Soft cotton tee for everyday wear.'' (1499 / 100) ''Clothes''"
    and s1: "strip_id d1 = sample ''Organic Granola''
               ''Crunchy, honey-sweetened breakfast granola.'' (749 / 100) ''Food''"
    and s2: "strip_id d2 = sample ''Bluetooth Headphones''
               ''Noise-isolating on-ear headphones with 20h battery.'' (5999 / 100)
               ''Electronics''"
    and s3: "strip_id d3 = sample ''Stainless Water Bottle''
               ''Keeps drinks cold for 24h and hot for 12h.'' (1999 / 100) ''Home''"
    and s4: "strip_id d4 = sample ''Gourmet Dark Chocolate''
               ''70% cacao premium chocolate bar.'' (399 / 100) ''Food''"
    unfolding samples_def by (auto simp: map_eq_Cons_conv)
  let ?s = "s\<lparr>faults := tl (faults s)\<rparr>"
  let ?f = "filter_matches ?s (filter_dict (Some ''Food'') (Some ''cacao''))"
  have m0: "\<not> ?f d0"
    by (subst strip_id_sample [OF s0], subst cacao_filter_matches) simp
  have m1: "\<not> ?f d1"
    by (subst strip_id_sample [OF s1], subst cacao_filter_matches)
       (simp only: cacao_not_in_granola_title cacao_not_in_granola_description, simp)
  have m2: "\<not> ?f d2"
    by (subst strip_id_sample [OF s2], subst cacao_filter_matches) simp
  have m3: "\<not> ?f d3"
    by (subst strip_id_sample [OF s3], subst cacao_filter_matches) simp
  have m4: "?f d4"
    by (subst strip_id_sample [OF s4], subst cacao_filter_matches)
       (simp only: cacao_in_chocolate_description, simp)
  have found: "find s (filter_dict (Some ''Food'') (Some ''cacao'')) = (Inr [d4], ?s)"
    using m0 m1 m2 m3 m4
    by (simp add: find_def next_fault_ok [OF assms(2)] cacao_filter_ok ps)
  have out: "product_out rt d4 =
      Inr \<lparr>id' = py_str rt (dict_get (d_id d4)), title = ''Gourmet Dark Chocolate'',
           description = Some ''70% cacao premium chocolate bar.'', price = 399 / 100,
           category = ''Food'', in_stock = True\<rparr>"
    by (subst strip_id_sample [OF s4]) (simp only: product_out_full)
  have nth: "product s ! 4 = d4"
    by (simp add: ps)
  show ?thesis
    by (simp add: list_products_def get_documents_def found out nth)
qed

text \<open>The seeded store, whose fifth product has the identifier 4.\<close>

theorem food_cacao_witness:
  "map strip_id (product seeded_store) = samples \<and> next_ok seeded_store \<and>
   fst (list_products strict_runtime (Some seeded_store) (Some ''Food'') (Some ''cacao'')) =
     Inr [\<lparr>id' = ''000000000000000000000004'', title = ''Gourmet Dark Chocolate'',
           description = Some ''70% cacao premium chocolate bar.'', price = 399 / 100,
           category = ''Food'', in_stock = True\<rparr>]"
proof -
  have a: "map strip_id (product seeded_store) = samples"
    by (simp add: seeded_store_def plain_store_def samples_def sample_def strip_id_def)
  have b: "next_ok seeded_store"
    by (simp add: seeded_store_def plain_store_def next_ok_def)
  have c: "d_id (product seeded_store ! 4) = Some (VOid 4)"
    by (simp add: seeded_store_def plain_store_def samples_def)
  show ?thesis
    using food_cacao [OF a b, of strict_runtime] a b by (simp add: c dict_get_def str_oid_4)
qed

end
